theory Spec2Isabelle
  imports Complex_Main "HOL-Library.Word" "HOL-Library.Sublist"
begin

unbundle bit_operations_syntax

section \<open>JavaScript values\<close>

text \<open>
  A JavaScript string is a sequence of UTF-16 code units, a Buffer a sequence of bytes.
  String literals of \<^verbatim>\<open>server.js\<close> are ASCII and written \<open>lit ''...''\<close>.
\<close>

type_synonym jsstring = "16 word list"
type_synonym bytes = "8 word list"

definition lit :: "string \<Rightarrow> jsstring" where
  "lit s = map (\<lambda>c. of_nat (of_char c)) s"

text \<open>
  The values that reach the handlers are parsed JSON (request bodies, provider
  results) and \<^verbatim>\<open>undefined\<close>, which a missing property reads as. A Number is an
  IEEE-754 binary64, carried by its bit pattern. An object is the list of its own
  properties; the first binding of a key is the property's value.
\<close>

datatype jsval =
    Undefined
  | Null
  | Bool bool
  | Num "64 word"
  | Str jsstring
  | Arr "jsval list"
  | Obj "(jsstring \<times> jsval) list"

text \<open>Every value thrown in \<^verbatim>\<open>server.js\<close> is an Error object: a name and a message.\<close>

record js_error =
  err_name :: jsstring
  err_message :: jsstring

definition TypeError :: "jsstring \<Rightarrow> js_error" where
  "TypeError msg = \<lparr>err_name = lit ''TypeError'', err_message = msg\<rparr>"

text \<open>ToBoolean: a Number is falsy when it is \<open>+0\<close>, \<open>-0\<close> or a NaN.\<close>

definition zero_or_nan :: "64 word \<Rightarrow> bool" where
  "zero_or_nan n =
     (let m = n AND 0x7FFFFFFFFFFFFFFF in m = 0 \<or> 0x7FF0000000000000 < m)"

fun truthy :: "jsval \<Rightarrow> bool" where
  "truthy Undefined = False"
| "truthy Null = False"
| "truthy (Bool b) = b"
| "truthy (Num n) = (\<not> zero_or_nan n)"
| "truthy (Str s) = (s \<noteq> [])"
| "truthy (Arr xs) = True"
| "truthy (Obj kvs) = True"

text \<open>\<^verbatim>\<open>a || b\<close>\<close>

definition js_or :: "jsval \<Rightarrow> jsval \<Rightarrow> jsval" where
  "js_or a b = (if truthy a then a else b)"

fun nullish :: "jsval \<Rightarrow> bool" where
  "nullish Undefined = True"
| "nullish Null = True"
| "nullish v = False"

definition own_prop :: "(jsstring \<times> jsval) list \<Rightarrow> jsstring \<Rightarrow> jsval" where
  "own_prop kvs k = (case map_of kvs k of None \<Rightarrow> Undefined | Some v \<Rightarrow> v)"

text \<open>
  \<^verbatim>\<open>v.k\<close> for the property names \<^verbatim>\<open>server.js\<close> reads from data (\<^verbatim>\<open>text\<close>,
  \<^verbatim>\<open>targetLanguage\<close>, \<^verbatim>\<open>message\<close>, \<^verbatim>\<open>language\<close>, \<^verbatim>\<open>choices\<close>, \<^verbatim>\<open>content\<close>): no
  built-in prototype defines them, so only an object's own property can answer.
\<close>

fun get_prop :: "jsval \<Rightarrow> jsstring \<Rightarrow> jsval" where
  "get_prop (Obj kvs) k = own_prop kvs k"
| "get_prop v k = Undefined"

text \<open>
  \<^verbatim>\<open>const { k } = req.body\<close>: destructuring \<^verbatim>\<open>undefined\<close> or \<^verbatim>\<open>null\<close> throws the
  TypeError of the engine, whose message quotes the property (\<open>0x27\<close> is the
  apostrophe).
\<close>

definition destructure :: "jsval \<Rightarrow> jsstring \<Rightarrow> js_error + jsval" where
  "destructure v k =
     (if nullish v
      then Inl (TypeError
                 (lit ''Cannot destructure property '' @ [0x27] @ k @ [0x27] @ lit '' of ''
                  @ [0x27] @ lit ''req.body'' @ [0x27] @ lit '' as it is ''
                  @ (if v = Null then lit ''null'' else lit ''undefined'') @ lit ''.''))
      else Inr (get_prop v k))"

text \<open>\<^verbatim>\<open>v?.k\<close> and \<^verbatim>\<open>v?.[0]\<close>\<close>

definition opt_prop :: "jsval \<Rightarrow> jsstring \<Rightarrow> jsval" where
  "opt_prop v k = (if nullish v then Undefined else get_prop v k)"

fun opt_first :: "jsval \<Rightarrow> jsval" where
  "opt_first (Arr xs) = (case xs of [] \<Rightarrow> Undefined | x # _ \<Rightarrow> x)"
| "opt_first (Str s) = (case s of [] \<Rightarrow> Undefined | c # _ \<Rightarrow> Str [c])"
| "opt_first (Obj kvs) = own_prop kvs (lit ''0'')"
| "opt_first v = Undefined"

text \<open>
  \<^verbatim>\<open>String.prototype.trim\<close> strips the WhiteSpace and LineTerminator code points of
  ECMAScript from both ends.
\<close>

definition is_ws :: "16 word \<Rightarrow> bool" where
  "is_ws c =
     (c \<in> {0x9, 0xA, 0xB, 0xC, 0xD, 0x20, 0xA0, 0x1680, 0x2028, 0x2029, 0x202F,
            0x205F, 0x3000, 0xFEFF}
      \<or> (0x2000 \<le> c \<and> c \<le> 0x200A))"

definition trim :: "jsstring \<Rightarrow> jsstring" where
  "trim s = rev (dropWhile is_ws (rev (dropWhile is_ws s)))"

text \<open>
  \<^verbatim>\<open>v?.trim()\<close>: skipped on \<^verbatim>\<open>undefined\<close> and \<^verbatim>\<open>null\<close>; on a value that
  is not a string, \<^verbatim>\<open>trim\<close> is not a function and the call throws.
\<close>

fun opt_trim :: "jsval \<Rightarrow> js_error + jsval" where
  "opt_trim Undefined = Inr Undefined"
| "opt_trim Null = Inr Undefined"
| "opt_trim (Str s) = Inr (Str (trim s))"
| "opt_trim v = Inl (TypeError (lit ''resp?.choices?.[0]?.message?.content?.trim is not a function''))"

text \<open>
  ToString, as a template literal applies it. An object whose own property
  \<^verbatim>\<open>toString\<close> is data (never a function, in parsed JSON) has no usable conversion:
  \<^verbatim>\<open>Object.prototype.valueOf\<close> returns the object itself, and the conversion throws.
  An array joins its elements with commas, \<^verbatim>\<open>null\<close> elements as the empty string.
  The digits of a Number are those of the engine, taken as the parameter \<open>nts\<close>.
\<close>

fun to_string :: "(64 word \<Rightarrow> jsstring) \<Rightarrow> jsval \<Rightarrow> js_error + jsstring"
  and join_elems :: "(64 word \<Rightarrow> jsstring) \<Rightarrow> jsval list \<Rightarrow> js_error + jsstring"
where
  "to_string nts Undefined = Inr (lit ''undefined'')"
| "to_string nts Null = Inr (lit ''null'')"
| "to_string nts (Bool b) = Inr (if b then lit ''true'' else lit ''false'')"
| "to_string nts (Num n) = Inr (nts n)"
| "to_string nts (Str s) = Inr s"
| "to_string nts (Arr xs) = join_elems nts xs"
| "to_string nts (Obj kvs) =
     (if map_of kvs (lit ''toString'') \<noteq> None
      then Inl (TypeError (lit ''Cannot convert object to primitive value''))
      else Inr (lit ''[object Object]''))"
| "join_elems nts [] = Inr []"
| "join_elems nts (x # xs) =
     (case (if nullish x then Inr [] else to_string nts x) of
        Inl e \<Rightarrow> Inl e
      | Inr s \<Rightarrow>
          (if xs = [] then Inr s
           else case join_elems nts xs of
                  Inl e \<Rightarrow> Inl e
                | Inr r \<Rightarrow> Inr (s @ lit '','' @ r)))"

text \<open>
  \<^verbatim>\<open>String(err?.message || err)\<close> on an Error object: its message when that is not
  empty, otherwise \<^verbatim>\<open>Error.prototype.toString\<close>.
\<close>

definition error_to_string :: "js_error \<Rightarrow> jsstring" where
  "error_to_string e =
     (if err_name e = [] then err_message e
      else if err_message e = [] then err_name e
      else err_name e @ lit '': '' @ err_message e)"

definition err_details :: "js_error \<Rightarrow> jsstring" where
  "err_details e = (if err_message e \<noteq> [] then err_message e else error_to_string e)"

text \<open>The decimal digits of a non-negative integer, as a template literal prints it.\<close>

function show_nat :: "nat \<Rightarrow> jsstring" where
  "show_nat n =
     (if n < 10 then [48 + of_nat n] else show_nat (n div 10) @ [48 + of_nat (n mod 10)])"
  by pat_completeness auto
termination
  by (relation "measure id") auto

declare show_nat.simps [simp del]


section \<open>Requests, responses and the world outside the handlers\<close>

text \<open>
  \<^verbatim>\<open>req.body\<close> is what the body parsers of lines 13-14 left: the parsed JSON or form
  object, or an empty object when they parsed nothing. The handlers are modelled on
  every value all the same, \<^verbatim>\<open>undefined\<close> included. \<^verbatim>\<open>req.file\<close> is what
  \<^verbatim>\<open>upload.single("audio")\<close> left: the upload of the form field \<^verbatim>\<open>audio\<close>, if any,
  with its bytes in \<^verbatim>\<open>buffer\<close>.
\<close>

datatype upload = Upload (buffer: "bytes option")

record request =
  body :: jsval
  req_file :: "upload option"

datatype payload = NoBody | Json jsval | Binary bytes

record response =
  status :: nat
  headers :: "jsstring \<rightharpoonup> jsstring"
  content :: payload

text \<open>
  The \<^verbatim>\<open>res\<close> object of Express before the handler touches it, and the four methods
  the handlers call. Headers that Express adds by itself (the length and tag of a JSON
  body, CORS) are not part of the model.
\<close>

definition res0 :: response where
  "res0 = \<lparr>status = 200, headers = Map.empty, content = NoBody\<rparr>"

definition res_status :: "nat \<Rightarrow> response \<Rightarrow> response" where
  "res_status n r = r\<lparr>status := n\<rparr>"

definition res_setHeader :: "jsstring \<Rightarrow> jsstring \<Rightarrow> response \<Rightarrow> response" where
  "res_setHeader k v r = r\<lparr>headers := (headers r)(k \<mapsto> v)\<rparr>"

definition res_json :: "jsval \<Rightarrow> response \<Rightarrow> response" where
  "res_json v r =
     r\<lparr>headers :=
         (if headers r (lit ''Content-Type'') = None
          then (headers r)(lit ''Content-Type'' \<mapsto> lit ''application/json; charset=utf-8'')
          else headers r),
       content := Json v\<rparr>"

definition res_send :: "bytes \<Rightarrow> response \<Rightarrow> response" where
  "res_send buf r =
     r\<lparr>headers :=
         ((if headers r (lit ''Content-Type'') = None
           then (headers r)(lit ''Content-Type'' \<mapsto> lit ''application/octet-stream'')
           else headers r))
         (lit ''Content-Length'' \<mapsto> show_nat (length buf)),
       content := Binary buf\<rparr>"

text \<open>The arguments of the three provider operations, as the handlers build them.\<close>

record chat_message =
  role :: jsstring
  msg_content :: jsval

record chat_params =
  model :: jsstring
  messages :: "chat_message list"
  max_tokens :: nat
  temperature :: rat

record transcription_params =
  tr_file :: jsstring
  tr_model :: jsstring

record speech_params =
  sp_model :: jsstring
  voice :: jsstring
  input :: jsval

text \<open>The Response-like result of the speech operation: \<^verbatim>\<open>arrayBuffer()\<close> may throw.\<close>

datatype speech_response = SpeechResponse (arrayBuffer: "js_error + bytes")

text \<open>
  What the handlers are linked against: the OpenAI client (each operation throws or
  returns; the transcription reads the stream of a path of the file system) and the
  engine's Number-to-string conversion.
\<close>

record deps =
  chat_completions_create :: "chat_params \<Rightarrow> js_error + jsval"
  audio_transcriptions_create ::
    "(jsstring \<rightharpoonup> bytes) \<Rightarrow> transcription_params \<Rightarrow> js_error + jsval"
  audio_speech_create :: "speech_params \<Rightarrow> js_error + speech_response"
  number_to_string :: "64 word \<Rightarrow> jsstring"

datatype provider_call =
    ChatCompletion chat_params
  | Transcription transcription_params
  | Speech speech_params

text \<open>
  The world a handler runs in: the files under \<^verbatim>\<open>/tmp\<close>, the error the file system
  raises on a write (if any), the clock that \<^verbatim>\<open>Date.now()\<close> reads, in milliseconds,
  and the record of the provider operations invoked so far, each with the error it
  threw (if any).
\<close>

record world =
  files :: "jsstring \<rightharpoonup> bytes"
  write_fault :: "js_error option"
  now :: nat
  calls :: "(provider_call \<times> js_error option) list"

definition log_call :: "provider_call \<Rightarrow> js_error option \<Rightarrow> world \<Rightarrow> world" where
  "log_call c r w = w\<lparr>calls := calls w @ [(c, r)]\<rparr>"

definition writeFileSync :: "jsstring \<Rightarrow> bytes \<Rightarrow> world \<Rightarrow> js_error + world" where
  "writeFileSync path data w =
     (case write_fault w of
        Some e \<Rightarrow> Inl e
      | None \<Rightarrow> Inr (w\<lparr>files := (files w)(path \<mapsto> data)\<rparr>))"

text \<open>
  \<^verbatim>\<open>try { fs.unlinkSync(tmpPath); } catch(e){}\<close>: the path is gone afterwards, and
  the error of unlinking a missing path is swallowed.
\<close>

definition unlinkSync_quiet :: "jsstring \<Rightarrow> world \<Rightarrow> world" where
  "unlinkSync_quiet path w = w\<lparr>files := (files w)(path := None)\<rparr>"


section \<open>The handlers of \<^verbatim>\<open>server.js\<close>\<close>

text \<open>
  Each handler is a \<^verbatim>\<open>try\<close> block, whose result is the response it sent or the
  error it threw, and a \<^verbatim>\<open>catch\<close> block that answers 500 for any error.
\<close>

definition bad_request :: "string \<Rightarrow> response" where
  "bad_request msg = res_json (Obj [(lit ''error'', Str (lit msg))]) (res_status 400 res0)"

definition failed :: "string \<Rightarrow> js_error \<Rightarrow> response" where
  "failed label err =
     res_json (Obj [(lit ''error'', Str (lit label)), (lit ''details'', Str (err_details err))])
       (res_status 500 res0)"

text \<open>\<^verbatim>\<open>resp?.choices?.[0]?.message?.content\<close>\<close>

definition first_choice_content :: "jsval \<Rightarrow> jsval" where
  "first_choice_content resp =
     opt_prop (opt_prop (opt_first (opt_prop resp (lit ''choices''))) (lit ''message''))
       (lit ''content'')"

subsection \<open>POST /translate (lines 35-61)\<close>

definition translate_params :: "jsstring \<Rightarrow> jsstring \<Rightarrow> chat_params" where
  "translate_params targetLanguage text =
     \<lparr>model = lit ''gpt-4o-mini'',
      messages =
        [\<lparr>role = lit ''system'', msg_content = Str (lit ''You are a helpful translator.'')\<rparr>,
         \<lparr>role = lit ''user'',
          msg_content =
            Str (lit ''Translate the following text to '' @ targetLanguage
                 @ lit '' and return only the translation:'' @ [0xA, 0xA] @ text)\<rparr>],
      max_tokens = 500,
      temperature = 1 / 10\<rparr>"

definition translate_try :: "deps \<Rightarrow> request \<Rightarrow> world \<Rightarrow> (js_error + response) \<times> world" where
  "translate_try d req w =
     (case destructure (body req) (lit ''text'') of
        Inl e \<Rightarrow> (Inl e, w)
      | Inr text \<Rightarrow>
     (case destructure (body req) (lit ''targetLanguage'') of
        Inl e \<Rightarrow> (Inl e, w)
      | Inr targetLanguage \<Rightarrow>
     if \<not> truthy text \<or> \<not> truthy targetLanguage
     then (Inr (bad_request ''Missing text or targetLanguage''), w)
     else
     (case to_string (number_to_string d) targetLanguage of
        Inl e \<Rightarrow> (Inl e, w)
      | Inr lang \<Rightarrow>
     (case to_string (number_to_string d) text of
        Inl e \<Rightarrow> (Inl e, w)
      | Inr txt \<Rightarrow>
     (case chat_completions_create d (translate_params lang txt) of
        Inl e \<Rightarrow> (Inl e, log_call (ChatCompletion (translate_params lang txt)) (Some e) w)
      | Inr resp \<Rightarrow>
     (case opt_trim (first_choice_content resp) of
        Inl e \<Rightarrow> (Inl e, log_call (ChatCompletion (translate_params lang txt)) None w)
      | Inr translated \<Rightarrow>
          (Inr (res_json (Obj [(lit ''result'', js_or translated (Str []))]) res0),
           log_call (ChatCompletion (translate_params lang txt)) None w)))))))"

definition translate_handler :: "deps \<Rightarrow> request \<Rightarrow> world \<Rightarrow> response \<times> world" where
  "translate_handler d req w =
     (case translate_try d req w of
        (Inr r, w') \<Rightarrow> (r, w')
      | (Inl err, w') \<Rightarrow> (failed ''Translate failed'' err, w'))"

subsection \<open>POST /chat (lines 68-90)\<close>

definition chat_params_of :: "jsstring \<Rightarrow> jsval \<Rightarrow> chat_params" where
  "chat_params_of langNote message =
     \<lparr>model = lit ''gpt-4o-mini'',
      messages =
        [\<lparr>role = lit ''system'',
          msg_content = Str (lit ''You are a friendly language partner. '' @ langNote)\<rparr>,
         \<lparr>role = lit ''user'', msg_content = message\<rparr>],
      max_tokens = 400,
      temperature = 7 / 10\<rparr>"

definition lang_note :: "(64 word \<Rightarrow> jsstring) \<Rightarrow> jsval \<Rightarrow> js_error + jsstring" where
  "lang_note nts language =
     (if truthy language
      then (case to_string nts language of
              Inl e \<Rightarrow> Inl e
            | Inr l \<Rightarrow> Inr (lit ''Respond in '' @ l @ lit ''.''))
      else Inr [])"

definition chat_try :: "deps \<Rightarrow> request \<Rightarrow> world \<Rightarrow> (js_error + response) \<times> world" where
  "chat_try d req w =
     (case destructure (body req) (lit ''message'') of
        Inl e \<Rightarrow> (Inl e, w)
      | Inr message \<Rightarrow>
     (case destructure (body req) (lit ''language'') of
        Inl e \<Rightarrow> (Inl e, w)
      | Inr language \<Rightarrow>
     if \<not> truthy message then (Inr (bad_request ''Missing message''), w)
     else
     (case lang_note (number_to_string d) language of
        Inl e \<Rightarrow> (Inl e, w)
      | Inr langNote \<Rightarrow>
     (case chat_completions_create d (chat_params_of langNote message) of
        Inl e \<Rightarrow> (Inl e, log_call (ChatCompletion (chat_params_of langNote message)) (Some e) w)
      | Inr resp \<Rightarrow>
     (case opt_trim (first_choice_content resp) of
        Inl e \<Rightarrow> (Inl e, log_call (ChatCompletion (chat_params_of langNote message)) None w)
      | Inr reply \<Rightarrow>
          (Inr (res_json (Obj [(lit ''reply'', js_or reply (Str []))]) res0),
           log_call (ChatCompletion (chat_params_of langNote message)) None w))))))"

definition chat_handler :: "deps \<Rightarrow> request \<Rightarrow> world \<Rightarrow> response \<times> world" where
  "chat_handler d req w =
     (case chat_try d req w of
        (Inr r, w') \<Rightarrow> (r, w')
      | (Inl err, w') \<Rightarrow> (failed ''Chat failed'' err, w'))"

subsection \<open>POST /voice-to-text (lines 97-119)\<close>

text \<open>\<^verbatim>\<open>`/tmp/record-${Date.now()}.webm`\<close>\<close>

definition tmpPath :: "nat \<Rightarrow> jsstring" where
  "tmpPath t = lit ''/tmp/record-'' @ show_nat t @ lit ''.webm''"

text \<open>
  The handler runs up to its \<^verbatim>\<open>await\<close>, where it has either answered already or
  issued the transcription of the file it wrote; it resumes with the outcome of that
  operation. Other requests may run in between.
\<close>

definition voice_to_text_begin ::
    "request \<Rightarrow> world \<Rightarrow> (response + jsstring \<times> transcription_params) \<times> world" where
  "voice_to_text_begin req w =
     (case req_file req of
        None \<Rightarrow> (Inl (bad_request ''No audio file uploaded''), w)
      | Some f \<Rightarrow>
     (case buffer f of
        None \<Rightarrow> (Inl (bad_request ''No audio file uploaded''), w)
      | Some buf \<Rightarrow>
     (case writeFileSync (tmpPath (now w)) buf w of
        Inl e \<Rightarrow> (Inl (failed ''Voice-to-text failed'' e), w)
      | Inr w1 \<Rightarrow>
          (Inr (tmpPath (now w),
                \<lparr>tr_file = tmpPath (now w), tr_model = lit ''gpt-4o-mini-transcribe''\<rparr>),
           w1))))"

definition voice_to_text_resume ::
    "jsstring \<Rightarrow> js_error + jsval \<Rightarrow> world \<Rightarrow> response \<times> world" where
  "voice_to_text_resume path outcome w =
     (case outcome of
        Inl e \<Rightarrow> (failed ''Voice-to-text failed'' e, w)
      | Inr transcription \<Rightarrow>
          (res_json (Obj [(lit ''text'', js_or (opt_prop transcription (lit ''text'')) (Str []))])
             res0,
           unlinkSync_quiet path w))"

definition thrown :: "js_error + 'a \<Rightarrow> js_error option" where
  "thrown r = (case r of Inl e \<Rightarrow> Some e | Inr v \<Rightarrow> None)"

definition voice_to_text_handler :: "deps \<Rightarrow> request \<Rightarrow> world \<Rightarrow> response \<times> world" where
  "voice_to_text_handler d req w =
     (case voice_to_text_begin req w of
        (Inl r, w1) \<Rightarrow> (r, w1)
      | (Inr (path, params), w1) \<Rightarrow>
          voice_to_text_resume path (audio_transcriptions_create d (files w1) params)
            (log_call (Transcription params)
               (thrown (audio_transcriptions_create d (files w1) params)) w1))"

subsection \<open>POST /text-to-voice (lines 126-149)\<close>

definition speech_params_of :: "jsval \<Rightarrow> speech_params" where
  "speech_params_of text =
     \<lparr>sp_model = lit ''gpt-4o-mini-tts'', voice = lit ''alloy'', input = text\<rparr>"

definition text_to_voice_try :: "deps \<Rightarrow> request \<Rightarrow> world \<Rightarrow> (js_error + response) \<times> world" where
  "text_to_voice_try d req w =
     (case destructure (body req) (lit ''text'') of
        Inl e \<Rightarrow> (Inl e, w)
      | Inr text \<Rightarrow>
     if \<not> truthy text then (Inr (bad_request ''Missing text''), w)
     else
     (case audio_speech_create d (speech_params_of text) of
        Inl e \<Rightarrow> (Inl e, log_call (Speech (speech_params_of text)) (Some e) w)
      | Inr speech \<Rightarrow>
     (case arrayBuffer speech of
        Inl e \<Rightarrow> (Inl e, log_call (Speech (speech_params_of text)) None w)
      | Inr buf \<Rightarrow>
          (Inr (res_send buf
                  (res_setHeader (lit ''Content-Length'') (show_nat (length buf))
                     (res_setHeader (lit ''Content-Type'') (lit ''audio/mpeg'') res0))),
           log_call (Speech (speech_params_of text)) None w))))"

definition text_to_voice_handler :: "deps \<Rightarrow> request \<Rightarrow> world \<Rightarrow> response \<times> world" where
  "text_to_voice_handler d req w =
     (case text_to_voice_try d req w of
        (Inr r, w') \<Rightarrow> (r, w')
      | (Inl err, w') \<Rightarrow> (failed ''TTS failed'' err, w'))"

subsection \<open>The four POST routes\<close>

datatype route = Translate | Chat | VoiceToText | TextToVoice

fun handle :: "route \<Rightarrow> deps \<Rightarrow> request \<Rightarrow> world \<Rightarrow> response \<times> world" where
  "handle Translate = translate_handler"
| "handle Chat = chat_handler"
| "handle VoiceToText = voice_to_text_handler"
| "handle TextToVoice = text_to_voice_handler"


section \<open>Observations on a run\<close>

text \<open>The provider operations a handler invoked: what it appended to the record.\<close>

definition invoked ::
    "route \<Rightarrow> deps \<Rightarrow> request \<Rightarrow> world \<Rightarrow> (provider_call \<times> js_error option) list" where
  "invoked r d req w = drop (length (calls w)) (calls (snd (handle r d req w)))"

text \<open>The name of the temp file a request to /voice-to-text wrote, if it wrote one.\<close>

definition tmp_name_of :: "request \<Rightarrow> world \<Rightarrow> jsstring option" where
  "tmp_name_of req w =
     (case fst (voice_to_text_begin req w) of
        Inl r \<Rightarrow> None
      | Inr (path, params) \<Rightarrow> Some path)"

text \<open>
  The required fields a request lacks, by the test each handler makes (lines 38, 71,
  99 and 129); the upload of /voice-to-text is the form field \<^verbatim>\<open>audio\<close>.
\<close>

definition lacks :: "request \<Rightarrow> string \<Rightarrow> string list" where
  "lacks req k = (if truthy (get_prop (body req) (lit k)) then [] else [k])"

fun missing_fields :: "route \<Rightarrow> request \<Rightarrow> string list" where
  "missing_fields Translate req = lacks req ''text'' @ lacks req ''targetLanguage''"
| "missing_fields Chat req = lacks req ''message''"
| "missing_fields VoiceToText req =
     (case req_file req of
        None \<Rightarrow> [''audio'']
      | Some f \<Rightarrow> (case buffer f of None \<Rightarrow> [''audio''] | Some buf \<Rightarrow> []))"
| "missing_fields TextToVoice req = lacks req ''text''"

text \<open>
  The required fields of each route, by the names its validation message uses, and
  whether a request passes the validation of its handler: the destructuring of lines
  37, 70 and 128 and the tests of lines 38, 71, 99 and 129.
\<close>

fun required_fields :: "route \<Rightarrow> string list" where
  "required_fields Translate = [''text'', ''targetLanguage'']"
| "required_fields Chat = [''message'']"
| "required_fields VoiceToText = [''audio'']"
| "required_fields TextToVoice = [''text'']"

fun validation_passes :: "route \<Rightarrow> request \<Rightarrow> bool" where
  "validation_passes Translate req =
     (\<not> nullish (body req) \<and> truthy (get_prop (body req) (lit ''text''))
      \<and> truthy (get_prop (body req) (lit ''targetLanguage'')))"
| "validation_passes Chat req =
     (\<not> nullish (body req) \<and> truthy (get_prop (body req) (lit ''message'')))"
| "validation_passes VoiceToText req =
     (case req_file req of None \<Rightarrow> False | Some f \<Rightarrow> buffer f \<noteq> None)"
| "validation_passes TextToVoice req =
     (\<not> nullish (body req) \<and> truthy (get_prop (body req) (lit ''text'')))"

text \<open>
  What a handler does between its validation and its provider call raises nothing:
  the template literals of lines 43 and 73 find a string for the fields they
  interpolate, and the temp file of line 103 is written.
\<close>

fun builds_call :: "route \<Rightarrow> deps \<Rightarrow> request \<Rightarrow> world \<Rightarrow> bool" where
  "builds_call Translate d req w =
     (\<not> isl (to_string (number_to_string d) (get_prop (body req) (lit ''targetLanguage'')))
      \<and> \<not> isl (to_string (number_to_string d) (get_prop (body req) (lit ''text''))))"
| "builds_call Chat d req w =
     (\<not> isl (lang_note (number_to_string d) (get_prop (body req) (lit ''language''))))"
| "builds_call VoiceToText d req w = (write_fault w = None)"
| "builds_call TextToVoice d req w = True"

text \<open>Reading decimal digits back, the inverse of \<open>show_nat\<close>.\<close>

definition read_nat :: "jsstring \<Rightarrow> nat" where
  "read_nat s = foldl (\<lambda>a c. 10 * a + unat (c - 48)) 0 s"

section \<open>Sample requests and providers\<close>

definition world0 :: world where
  "world0 = \<lparr>files = Map.empty, write_fault = None, now = 1700000000000, calls = []\<rparr>"

definition json_request :: "(string \<times> jsval) list \<Rightarrow> request" where
  "json_request kvs = \<lparr>body = Obj (map (\<lambda>(k, v). (lit k, v)) kvs), req_file = None\<rparr>"

definition audio_request :: "bytes \<Rightarrow> request" where
  "audio_request buf = \<lparr>body = Obj [], req_file = Some (Upload (Some buf))\<rparr>"

definition hola_response :: jsval where
  "hola_response =
     Obj [(lit ''choices'',
           Arr [Obj [(lit ''message'',
                      Obj [(lit ''role'', Str (lit ''assistant'')),
                           (lit ''content'', Str (lit '' Hola ''))])]])]"

text \<open>A provider whose operations all return, and one whose operations all throw.\<close>

definition mock_deps :: deps where
  "mock_deps =
     \<lparr>chat_completions_create = (\<lambda>p. Inr hola_response),
      audio_transcriptions_create = (\<lambda>fs p. Inr (Obj [(lit ''text'', Str (lit ''hello world''))])),
      audio_speech_create = (\<lambda>p. Inr (SpeechResponse (Inr [0x49, 0x44, 0x33]))),
      number_to_string = (\<lambda>n. lit ''0'')\<rparr>"

definition throwing_deps :: "js_error \<Rightarrow> deps" where
  "throwing_deps e =
     \<lparr>chat_completions_create = (\<lambda>p. Inl e),
      audio_transcriptions_create = (\<lambda>fs p. Inl e),
      audio_speech_create = (\<lambda>p. Inl e),
      number_to_string = (\<lambda>n. lit ''0'')\<rparr>"

definition timeout_error :: js_error where
  "timeout_error = \<lparr>err_name = lit ''Error'', err_message = lit ''Request timed out.''\<rparr>"


text \<open>The JSON value \<^verbatim>\<open>{"toString": "x"}\<close>, which has no string conversion.\<close>

definition unprintable :: jsval where
  "unprintable = Obj [(lit ''toString'', Str (lit ''x''))]"

text \<open>A provider whose chat completion returns no choice.\<close>

definition empty_deps :: deps where
  "empty_deps = mock_deps\<lparr>chat_completions_create := (\<lambda>p. Inr (Obj [(lit ''choices'', Arr [])]))\<rparr>"

section \<open>Properties\<close>

subsection \<open>Auxiliary facts\<close>

lemma destructure_simp: "\<not> nullish v \<Longrightarrow> destructure v k = Inr (get_prop v k)"
  by (simp add: destructure_def)

lemma destructure_nullish: "nullish v \<Longrightarrow> \<exists>e. destructure v k = Inl e"
  by (simp add: destructure_def)

lemmas res_defs = bad_request_def failed_def res_json_def res_status_def res_send_def
  res_setHeader_def res0_def

lemmas sample_defs = world0_def json_request_def audio_request_def hola_response_def mock_deps_def
  throwing_deps_def timeout_error_def

lemma translate_invoked:
  "invoked Translate d req w = [] \<or>
   (\<exists>lang txt e. invoked Translate d req w = [(ChatCompletion (translate_params lang txt), e)])"
  by (auto simp: invoked_def translate_handler_def translate_try_def log_call_def split: sum.splits)

lemma chat_invoked:
  "invoked Chat d req w = [] \<or>
   (\<exists>note msg e. invoked Chat d req w = [(ChatCompletion (chat_params_of note msg), e)])"
  by (auto simp: invoked_def chat_handler_def chat_try_def log_call_def split: sum.splits)

lemma voice_invoked:
  "invoked VoiceToText d req w = [] \<or>
   (\<exists>p e. invoked VoiceToText d req w = [(Transcription p, e)])"
  by (auto simp: invoked_def voice_to_text_handler_def voice_to_text_begin_def voice_to_text_resume_def
      writeFileSync_def unlinkSync_quiet_def log_call_def split: sum.splits option.splits)

lemma tts_invoked:
  "invoked TextToVoice d req w = [] \<or>
   (\<exists>p e. invoked TextToVoice d req w = [(Speech p, e)])"
  by (auto simp: invoked_def text_to_voice_handler_def text_to_voice_try_def log_call_def split: sum.splits)

lemma calls_extended: "calls (snd (handle r d req w)) = calls w @ invoked r d req w"
proof (cases r)
  case Translate
  then show ?thesis
    by (auto simp: invoked_def translate_handler_def translate_try_def log_call_def split: sum.splits)
next
  case Chat
  then show ?thesis
    by (auto simp: invoked_def chat_handler_def chat_try_def log_call_def split: sum.splits)
next
  case VoiceToText
  then show ?thesis
    by (auto simp: invoked_def voice_to_text_handler_def voice_to_text_begin_def
        voice_to_text_resume_def writeFileSync_def unlinkSync_quiet_def log_call_def
        split: sum.splits option.splits)
next
  case TextToVoice
  then show ?thesis
    by (auto simp: invoked_def text_to_voice_handler_def text_to_voice_try_def log_call_def
        split: sum.splits)
qed

lemma invoked_at_most_one: "length (invoked r d req w) \<le> 1"
  using translate_invoked [of d req w] chat_invoked [of d req w] voice_invoked [of d req w]
    tts_invoked [of d req w]
  by (cases r) auto

lemma invoked_none_on_400: "status (fst (handle r d req w)) = 400 \<Longrightarrow> invoked r d req w = []"
proof (cases r)
  case Translate
  then show "status (fst (handle r d req w)) = 400 \<Longrightarrow> ?thesis"
    by (auto simp: invoked_def translate_handler_def translate_try_def log_call_def res_defs split: sum.splits if_splits)
next
  case Chat
  then show "status (fst (handle r d req w)) = 400 \<Longrightarrow> ?thesis"
    by (auto simp: invoked_def chat_handler_def chat_try_def log_call_def res_defs split: sum.splits if_splits)
next
  case VoiceToText
  then show "status (fst (handle r d req w)) = 400 \<Longrightarrow> ?thesis"
    by (auto simp: invoked_def voice_to_text_handler_def voice_to_text_begin_def
        voice_to_text_resume_def writeFileSync_def unlinkSync_quiet_def log_call_def res_defs
        split: sum.splits option.splits)
next
  case TextToVoice
  then show "status (fst (handle r d req w)) = 400 \<Longrightarrow> ?thesis"
    by (auto simp: invoked_def text_to_voice_handler_def text_to_voice_try_def log_call_def res_defs
        split: sum.splits if_splits)
qed

lemma invoked_one_on_200: "status (fst (handle r d req w)) = 200 \<Longrightarrow> length (invoked r d req w) = 1"
proof (cases r)
  case Translate
  then show "status (fst (handle r d req w)) = 200 \<Longrightarrow> ?thesis"
    by (auto simp: invoked_def translate_handler_def translate_try_def log_call_def res_defs split: sum.splits if_splits)
next
  case Chat
  then show "status (fst (handle r d req w)) = 200 \<Longrightarrow> ?thesis"
    by (auto simp: invoked_def chat_handler_def chat_try_def log_call_def res_defs split: sum.splits if_splits)
next
  case VoiceToText
  then show "status (fst (handle r d req w)) = 200 \<Longrightarrow> ?thesis"
    by (auto simp: invoked_def voice_to_text_handler_def voice_to_text_begin_def
        voice_to_text_resume_def writeFileSync_def unlinkSync_quiet_def log_call_def res_defs
        split: sum.splits option.splits)
next
  case TextToVoice
  then show "status (fst (handle r d req w)) = 200 \<Longrightarrow> ?thesis"
    by (auto simp: invoked_def text_to_voice_handler_def text_to_voice_try_def log_call_def res_defs
        split: sum.splits if_splits)
qed

lemma handle_answers: "status (fst (handle r d req w)) \<in> {200, 400, 500}"
proof (cases r)
  case Translate
  then show ?thesis
    by (auto simp: translate_handler_def translate_try_def res_defs split: sum.splits if_splits)
next
  case Chat
  then show ?thesis
    by (auto simp: chat_handler_def chat_try_def res_defs split: sum.splits if_splits)
next
  case VoiceToText
  then show ?thesis
    by (auto simp: voice_to_text_handler_def voice_to_text_begin_def
        voice_to_text_resume_def writeFileSync_def res_defs
        split: sum.splits option.splits)
next
  case TextToVoice
  then show ?thesis
    by (auto simp: text_to_voice_handler_def text_to_voice_try_def res_defs
        split: sum.splits if_splits)
qed

lemma names_text: "sublist (lit ''text'') (lit ''Missing text or targetLanguage'')"
  by code_simp

lemma names_targetLanguage: "sublist (lit ''targetLanguage'') (lit ''Missing text or targetLanguage'')"
  by code_simp

lemma names_message: "sublist (lit ''message'') (lit ''Missing message'')"
  by code_simp

lemma names_audio: "sublist (lit ''audio'') (lit ''No audio file uploaded'')"
  by code_simp

lemma names_text_tts: "sublist (lit ''text'') (lit ''Missing text'')"
  by code_simp

lemma translate_400:
  "status (fst (translate_handler d req w)) = 400 \<Longrightarrow>
   content (fst (translate_handler d req w)) = Json (Obj [(lit ''error'', Str (lit ''Missing text or targetLanguage''))])
   \<and> lacks req ''text'' @ lacks req ''targetLanguage'' \<noteq> []"
  by (auto simp: translate_handler_def translate_try_def destructure_def lacks_def res_defs
      split: sum.splits if_splits)

lemma chat_400:
  "status (fst (chat_handler d req w)) = 400 \<Longrightarrow>
   content (fst (chat_handler d req w)) = Json (Obj [(lit ''error'', Str (lit ''Missing message''))])
   \<and> lacks req ''message'' \<noteq> []"
  by (auto simp: chat_handler_def chat_try_def destructure_def lacks_def res_defs
      split: sum.splits if_splits)

lemma voice_400:
  "status (fst (voice_to_text_handler d req w)) = 400 \<Longrightarrow>
   content (fst (voice_to_text_handler d req w)) = Json (Obj [(lit ''error'', Str (lit ''No audio file uploaded''))])
   \<and> missing_fields VoiceToText req = [''audio'']"
  by (auto simp: voice_to_text_handler_def voice_to_text_begin_def voice_to_text_resume_def
      writeFileSync_def res_defs split: sum.splits option.splits)

lemma tts_400:
  "status (fst (text_to_voice_handler d req w)) = 400 \<Longrightarrow>
   content (fst (text_to_voice_handler d req w)) = Json (Obj [(lit ''error'', Str (lit ''Missing text''))])
   \<and> lacks req ''text'' \<noteq> []"
  by (auto simp: text_to_voice_handler_def text_to_voice_try_def destructure_def lacks_def res_defs
      split: sum.splits if_splits)

lemma digit_back: "n < 10 \<Longrightarrow> unat ((48 + of_nat n :: 16 word) - 48) = n"
  by (simp add: unat_of_nat)

lemma read_nat_snoc: "read_nat (s @ [c]) = 10 * read_nat s + unat (c - 48)"
  by (simp add: read_nat_def)

lemma show_small: "n < 10 \<Longrightarrow> show_nat n = [48 + of_nat n]"
  by (subst show_nat.simps) (simp only: if_True)

lemma show_large: "\<not> n < 10 \<Longrightarrow> show_nat n = show_nat (n div 10) @ [48 + of_nat (n mod 10)]"
  by (subst show_nat.simps) (simp only: if_False)

lemma read_nat_show_nat: "read_nat (show_nat n) = n"
proof (induction n rule: show_nat.induct)
  case (1 n)
  show ?case
  proof (cases "n < 10")
    case True
    then have "read_nat (show_nat n) = unat ((48 + of_nat n :: 16 word) - 48)"
      by (simp only: show_small read_nat_def foldl.simps mult_0_right add_0)
    with True show ?thesis
      by (simp only: digit_back)
  next
    case False
    have "n mod 10 < 10" by simp
    then have d: "unat ((48 + of_nat (n mod 10) :: 16 word) - 48) = n mod 10"
      by (rule digit_back)
    have "read_nat (show_nat n) = 10 * read_nat (show_nat (n div 10)) + n mod 10"
      by (simp only: show_large [OF False] read_nat_snoc d)
    also have "\<dots> = 10 * (n div 10) + n mod 10"
      by (simp only: "1.IH" [OF False])
    finally show ?thesis by simp
  qed
qed

lemma show_nat_inj: "show_nat m = show_nat n \<Longrightarrow> m = n"
  by (metis read_nat_show_nat)

lemma tmpPath_inj: "tmpPath s = tmpPath t \<longleftrightarrow> s = t"
  by (auto simp: tmpPath_def dest: show_nat_inj)

lemma tmp_name_of_Some: "tmp_name_of req w = Some p \<Longrightarrow> p = tmpPath (now w)"
  by (auto simp: tmp_name_of_def voice_to_text_begin_def writeFileSync_def
      split: option.splits sum.splits)

lemma header_names_differ: "lit ''Content-Type'' \<noteq> lit ''Content-Length''"
  by (simp add: lit_def)

lemma temp_file_removed_on_success:
  assumes "req_file req = Some (Upload (Some buf))" and "write_fault w = None"
    and "audio_transcriptions_create d ((files w)(tmpPath (now w) \<mapsto> buf))
           \<lparr>tr_file = tmpPath (now w), tr_model = lit ''gpt-4o-mini-transcribe''\<rparr> = Inr t"
  shows "files (snd (voice_to_text_handler d req w)) (tmpPath (now w)) = None
       \<and> status (fst (voice_to_text_handler d req w)) = 200"
  using assms
  by (simp add: voice_to_text_handler_def voice_to_text_begin_def voice_to_text_resume_def
      writeFileSync_def unlinkSync_quiet_def log_call_def thrown_def res_defs)

lemma temp_file_kept_on_failure:
  assumes "req_file req = Some (Upload (Some buf))" and "write_fault w = None"
    and "audio_transcriptions_create d ((files w)(tmpPath (now w) \<mapsto> buf))
           \<lparr>tr_file = tmpPath (now w), tr_model = lit ''gpt-4o-mini-transcribe''\<rparr> = Inl e"
  shows "files (snd (voice_to_text_handler d req w)) (tmpPath (now w)) = Some buf
       \<and> status (fst (voice_to_text_handler d req w)) = 500"
  using assms
  by (simp add: voice_to_text_handler_def voice_to_text_begin_def voice_to_text_resume_def
      writeFileSync_def unlinkSync_quiet_def log_call_def thrown_def res_defs)

lemma translate_passes:
  assumes "validation_passes Translate req"
  shows "status (fst (translate_handler d req w)) \<noteq> 400"
    and "builds_call Translate d req w \<Longrightarrow> length (invoked Translate d req w) = 1"
    and "\<not> builds_call Translate d req w \<Longrightarrow>
           status (fst (translate_handler d req w)) = 500 \<and> invoked Translate d req w = []"
  using assms
  by (auto simp: invoked_def translate_handler_def translate_try_def destructure_simp log_call_def
      res_defs split: sum.splits)

lemma chat_passes:
  assumes "validation_passes Chat req"
  shows "status (fst (chat_handler d req w)) \<noteq> 400"
    and "builds_call Chat d req w \<Longrightarrow> length (invoked Chat d req w) = 1"
    and "\<not> builds_call Chat d req w \<Longrightarrow>
           status (fst (chat_handler d req w)) = 500 \<and> invoked Chat d req w = []"
  using assms
  by (auto simp: invoked_def chat_handler_def chat_try_def destructure_simp log_call_def
      res_defs split: sum.splits)

lemma voice_passes:
  assumes "validation_passes VoiceToText req"
  shows "status (fst (voice_to_text_handler d req w)) \<noteq> 400"
    and "builds_call VoiceToText d req w \<Longrightarrow> length (invoked VoiceToText d req w) = 1"
    and "\<not> builds_call VoiceToText d req w \<Longrightarrow>
           status (fst (voice_to_text_handler d req w)) = 500 \<and> invoked VoiceToText d req w = []"
  using assms
  by (auto simp: invoked_def voice_to_text_handler_def voice_to_text_begin_def
      voice_to_text_resume_def writeFileSync_def unlinkSync_quiet_def log_call_def res_defs
      split: sum.splits option.splits)

lemma tts_passes:
  assumes "validation_passes TextToVoice req"
  shows "status (fst (text_to_voice_handler d req w)) \<noteq> 400"
    and "length (invoked TextToVoice d req w) = 1"
  using assms
  by (auto simp: invoked_def text_to_voice_handler_def text_to_voice_try_def destructure_simp
      log_call_def res_defs split: sum.splits)

lemma validation_fails_400:
  assumes "\<not> validation_passes r req" and "r = VoiceToText \<or> \<not> nullish (body req)"
  shows "status (fst (handle r d req w)) = 400"
proof (cases r)
  case Translate
  with assms show ?thesis
    by (auto simp: translate_handler_def translate_try_def destructure_simp res_defs)
next
  case Chat
  with assms show ?thesis
    by (auto simp: chat_handler_def chat_try_def destructure_simp res_defs)
next
  case VoiceToText
  with assms show ?thesis
    by (auto simp: voice_to_text_handler_def voice_to_text_begin_def res_defs
        split: option.splits)
next
  case TextToVoice
  with assms show ?thesis
    by (auto simp: text_to_voice_handler_def text_to_voice_try_def destructure_simp res_defs)
qed

lemma primitive_to_string:
  "v = Undefined \<or> v = Null \<or> v = Bool b \<or> v = Num n \<or> v = Str s
     \<Longrightarrow> \<not> isl (to_string nts v)"
  by auto

lemma names_by_clock:
  assumes "tmp_name_of req1 w1 = Some p1" and "tmp_name_of req2 w2 = Some p2"
  shows "p1 = p2 \<longleftrightarrow> now w1 = now w2"
  using assms tmp_name_of_Some [of req1 w1 p1] tmp_name_of_Some [of req2 w2 p2]
  by (simp add: tmpPath_inj)

lemma other_paths_untouched:
  "p \<noteq> tmpPath (now w) \<Longrightarrow> files (snd (voice_to_text_handler d req w)) p = files w p"
  by (auto simp: voice_to_text_handler_def voice_to_text_begin_def voice_to_text_resume_def
      writeFileSync_def unlinkSync_quiet_def log_call_def split: sum.splits option.splits)

subsection \<open>Validation\<close>

text \<open>
  C4. A request to POST /translate whose \<^verbatim>\<open>text\<close> or \<^verbatim>\<open>targetLanguage\<close> is absent
  (reads as \<^verbatim>\<open>undefined\<close>) or empty (or any other falsy value) is answered 400 with
  the JSON body \<^verbatim>\<open>{error: "Missing text or targetLanguage"}\<close>, and the provider is
  not invoked. The body is the object the body parsers left in \<^verbatim>\<open>req.body\<close>.
\<close>

theorem translate_missing_field_400:
  assumes "\<not> nullish (body req)"
    and "\<not> truthy (get_prop (body req) (lit ''text''))
         \<or> \<not> truthy (get_prop (body req) (lit ''targetLanguage''))"
  shows "status (fst (translate_handler d req w)) = 400
       \<and> content (fst (translate_handler d req w))
           = Json (Obj [(lit ''error'', Str (lit ''Missing text or targetLanguage''))])
       \<and> invoked Translate d req w = []"
  using assms
  by (auto simp: invoked_def translate_handler_def translate_try_def destructure_simp res_defs)

theorem translate_missing_field_400_witness:
  "status (fst (translate_handler mock_deps (json_request [(''text'', Str (lit ''Hello''))]) world0)) = 400
   \<and> content (fst (translate_handler mock_deps (json_request [(''text'', Str (lit ''Hello''))]) world0))
       = Json (Obj [(lit ''error'', Str (lit ''Missing text or targetLanguage''))])
   \<and> invoked Translate mock_deps (json_request [(''text'', Str (lit ''Hello''))]) world0 = []
   \<and> status (fst (translate_handler mock_deps
        (json_request [(''text'', Str []), (''targetLanguage'', Str (lit ''Spanish''))]) world0)) = 400"
  using translate_missing_field_400 [of "json_request [(''text'', Str (lit ''Hello''))]" mock_deps world0]
    translate_missing_field_400 [of "json_request [(''text'', Str []), (''targetLanguage'', Str (lit ''Spanish''))]" mock_deps world0]
  by (simp add: json_request_def own_prop_def lit_def)

text \<open>
  C10. A request to POST /chat whose \<^verbatim>\<open>message\<close> is present but falsy (the empty
  string, \<open>0\<close>, \<^verbatim>\<open>false\<close>, \<^verbatim>\<open>null\<close>), and a request to POST /text-to-voice whose
  \<^verbatim>\<open>text\<close> is present but falsy, is answered 400 without a provider call.
\<close>

theorem falsy_field_400:
  assumes "body req = Obj kvs" and "\<not> truthy v"
  shows "(map_of kvs (lit ''message'') = Some v \<longrightarrow>
            status (fst (chat_handler d req w)) = 400 \<and> invoked Chat d req w = [])
       \<and> (map_of kvs (lit ''text'') = Some v \<longrightarrow>
            status (fst (text_to_voice_handler d req w)) = 400 \<and> invoked TextToVoice d req w = [])"
  using assms
  by (auto simp: invoked_def chat_handler_def chat_try_def text_to_voice_handler_def
      text_to_voice_try_def destructure_simp own_prop_def res_defs)

theorem falsy_field_400_witness:
  "status (fst (chat_handler mock_deps (json_request [(''message'', Str [])]) world0)) = 400
   \<and> status (fst (chat_handler mock_deps (json_request [(''message'', Num 0)]) world0)) = 400
   \<and> status (fst (chat_handler mock_deps (json_request [(''message'', Bool False)]) world0)) = 400
   \<and> status (fst (chat_handler mock_deps (json_request [(''message'', Null)]) world0)) = 400
   \<and> status (fst (text_to_voice_handler mock_deps (json_request [(''text'', Str [])]) world0)) = 400
   \<and> status (fst (text_to_voice_handler mock_deps (json_request [(''text'', Num 0)]) world0)) = 400"
  using falsy_field_400 [of "json_request [(''message'', Str [])]" "[(lit ''message'', Str [])]" "Str []" mock_deps world0]
    falsy_field_400 [of "json_request [(''message'', Num 0)]" "[(lit ''message'', Num 0)]" "Num 0" mock_deps world0]
    falsy_field_400 [of "json_request [(''message'', Bool False)]" "[(lit ''message'', Bool False)]" "Bool False" mock_deps world0]
    falsy_field_400 [of "json_request [(''message'', Null)]" "[(lit ''message'', Null)]" "Null" mock_deps world0]
    falsy_field_400 [of "json_request [(''text'', Str [])]" "[(lit ''text'', Str [])]" "Str []" mock_deps world0]
    falsy_field_400 [of "json_request [(''text'', Num 0)]" "[(lit ''text'', Num 0)]" "Num 0" mock_deps world0]
  by (simp add: json_request_def zero_or_nan_def)

text \<open>
  C5, as stated, fails on /translate: a request with \<^verbatim>\<open>text\<close> present and
  \<^verbatim>\<open>targetLanguage\<close> missing is answered with the very message of a request with
  \<^verbatim>\<open>targetLanguage\<close> present and \<^verbatim>\<open>text\<close> missing, and that message names
  \<^verbatim>\<open>text\<close>, a field the first request has.
\<close>

theorem validation_message_not_specific:
  "status (fst (handle Translate mock_deps (json_request [(''text'', Str (lit ''Hello''))]) world0)) = 400
   \<and> missing_fields Translate (json_request [(''text'', Str (lit ''Hello''))]) = [''targetLanguage'']
   \<and> content (fst (handle Translate mock_deps (json_request [(''text'', Str (lit ''Hello''))]) world0))
      = Json (Obj [(lit ''error'', Str (lit ''Missing text or targetLanguage''))])
   \<and> sublist (lit ''text'') (lit ''Missing text or targetLanguage'')
   \<and> content (fst (handle Translate mock_deps
        (json_request [(''targetLanguage'', Str (lit ''Spanish''))]) world0))
      = Json (Obj [(lit ''error'', Str (lit ''Missing text or targetLanguage''))])"
  using names_text
  by (simp add: translate_handler_def translate_try_def destructure_simp own_prop_def lacks_def
      json_request_def res_defs lit_def)

text \<open>
  C5, amended. Whenever a route answers 400, the body is \<^verbatim>\<open>{error: m}\<close>, a required
  field of the request is missing or empty, and the message \<open>m\<close> contains the name of
  every required field that is missing or empty (the upload of /voice-to-text is the
  form field \<^verbatim>\<open>audio\<close>). On /chat, /voice-to-text and /text-to-voice the required
  fields named by \<open>m\<close> are exactly the missing ones; on /translate \<open>m\<close> is the fixed
  \<^verbatim>\<open>Missing text or targetLanguage\<close>, which names both required fields whichever of
  them is missing.
\<close>

theorem validation_message_names_fields:
  assumes "status (fst (handle r d req w)) = 400"
  shows "\<exists>m. content (fst (handle r d req w)) = Json (Obj [(lit ''error'', Str m)])
           \<and> missing_fields r req \<noteq> []
           \<and> (\<forall>f \<in> set (missing_fields r req). sublist (lit f) m)
           \<and> (r \<noteq> Translate \<longrightarrow>
                (\<forall>f \<in> set (required_fields r).
                   sublist (lit f) m \<longleftrightarrow> f \<in> set (missing_fields r req)))
           \<and> (r = Translate \<longrightarrow>
                m = lit ''Missing text or targetLanguage''
                \<and> (\<forall>f \<in> set (required_fields r). sublist (lit f) m))"
proof (cases r)
  case Translate
  with assms translate_400 [of d req w] show ?thesis
    using names_text names_targetLanguage by (auto simp: lacks_def split: if_splits)
next
  case Chat
  with assms chat_400 [of d req w] show ?thesis
    using names_message by (auto simp: lacks_def split: if_splits)
next
  case VoiceToText
  with assms voice_400 [of d req w] show ?thesis
    using names_audio by auto
next
  case TextToVoice
  with assms tts_400 [of d req w] show ?thesis
    using names_text_tts by (auto simp: lacks_def split: if_splits)
qed

theorem validation_message_names_fields_witness:
  "status (fst (handle Translate mock_deps (json_request [(''targetLanguage'', Str (lit ''Spanish''))]) world0)) = 400
   \<and> missing_fields Translate (json_request [(''targetLanguage'', Str (lit ''Spanish''))]) = [''text'']
   \<and> content (fst (handle Translate mock_deps (json_request [(''targetLanguage'', Str (lit ''Spanish''))]) world0))
      = Json (Obj [(lit ''error'', Str (lit ''Missing text or targetLanguage''))])
   \<and> sublist (lit ''text'') (lit ''Missing text or targetLanguage'')
   \<and> status (fst (handle VoiceToText mock_deps (json_request []) world0)) = 400
   \<and> missing_fields VoiceToText (json_request []) = [''audio'']
   \<and> content (fst (handle VoiceToText mock_deps (json_request []) world0))
      = Json (Obj [(lit ''error'', Str (lit ''No audio file uploaded''))])
   \<and> sublist (lit ''audio'') (lit ''No audio file uploaded'')"
  using validation_message_names_fields [of Translate mock_deps
      "json_request [(''targetLanguage'', Str (lit ''Spanish''))]" world0]
    validation_message_names_fields [of VoiceToText mock_deps "json_request []" world0]
  by (auto simp: translate_handler_def translate_try_def voice_to_text_handler_def
      voice_to_text_begin_def destructure_simp own_prop_def lacks_def
      json_request_def res_defs lit_def)

subsection \<open>Successful calls\<close>

text \<open>
  C6. A request to POST /translate with non-empty \<^verbatim>\<open>text\<close> and \<^verbatim>\<open>targetLanguage\<close>,
  for which the chat completion returns \<open>resp\<close>, is answered 200 with the body
  \<^verbatim>\<open>{result: r}\<close>: \<open>r\<close> is the trimmed content of the first choice of \<open>resp\<close> when
  that is a string, and the empty string when it is absent (\<^verbatim>\<open>undefined\<close> or \<^verbatim>\<open>null\<close>,
  anywhere along \<^verbatim>\<open>resp?.choices?.[0]?.message?.content\<close>).
\<close>

theorem translate_ok:
  assumes "get_prop (body req) (lit ''text'') = Str txt" and "txt \<noteq> []"
    and "get_prop (body req) (lit ''targetLanguage'') = Str lang" and "lang \<noteq> []"
    and "chat_completions_create d (translate_params lang txt) = Inr resp"
  shows "(first_choice_content resp = Str c \<longrightarrow>
            status (fst (translate_handler d req w)) = 200
            \<and> content (fst (translate_handler d req w)) = Json (Obj [(lit ''result'', Str (trim c))]))
       \<and> (nullish (first_choice_content resp) \<longrightarrow>
            status (fst (translate_handler d req w)) = 200
            \<and> content (fst (translate_handler d req w)) = Json (Obj [(lit ''result'', Str [])]))"
proof -
  from assms(1) have nn: "\<not> nullish (body req)"
    by (cases "body req") auto
  have "js_or (Str (trim c)) (Str []) = Str (trim c)"
    by (simp add: js_or_def)
  moreover have "nullish v \<Longrightarrow> opt_trim v = Inr Undefined" for v
    by (cases v) auto
  ultimately show ?thesis
    using assms nn
    by (auto simp: translate_handler_def translate_try_def destructure_simp res_defs js_or_def)
qed

theorem translate_ok_witness:
  "first_choice_content hola_response = Str (lit '' Hola '')
   \<and> trim (lit '' Hola '') = lit ''Hola''
   \<and> status (fst (translate_handler mock_deps
        (json_request [(''text'', Str (lit ''Hello'')), (''targetLanguage'', Str (lit ''Spanish''))]) world0)) = 200
   \<and> content (fst (translate_handler mock_deps
        (json_request [(''text'', Str (lit ''Hello'')), (''targetLanguage'', Str (lit ''Spanish''))]) world0))
       = Json (Obj [(lit ''result'', Str (lit ''Hola''))])
   \<and> nullish (first_choice_content (Obj [(lit ''choices'', Arr [])]))
   \<and> content (fst (translate_handler empty_deps
        (json_request [(''text'', Str (lit ''Hello'')), (''targetLanguage'', Str (lit ''Spanish''))]) world0))
       = Json (Obj [(lit ''result'', Str [])])"
  using translate_ok [of "json_request [(''text'', Str (lit ''Hello'')), (''targetLanguage'', Str (lit ''Spanish''))]"
        "lit ''Hello''" "lit ''Spanish''" mock_deps hola_response "lit '' Hola ''" world0]
    translate_ok [of "json_request [(''text'', Str (lit ''Hello'')), (''targetLanguage'', Str (lit ''Spanish''))]"
        "lit ''Hello''" "lit ''Spanish''" empty_deps "Obj [(lit ''choices'', Arr [])]" "[]" world0]
  by (simp add: json_request_def mock_deps_def empty_deps_def hola_response_def own_prop_def
      first_choice_content_def opt_prop_def trim_def is_ws_def lit_def)

text \<open>
  C2. A request to POST /text-to-voice with a non-empty \<^verbatim>\<open>text\<close>, for which the
  speech operation returns a payload \<open>buf\<close> of \<open>N\<close> bytes, is answered 200 with
  exactly \<open>buf\<close> as the body, \<^verbatim>\<open>Content-Type: audio/mpeg\<close> and the decimal digits of
  \<open>N\<close> as \<^verbatim>\<open>Content-Length\<close>.
\<close>

theorem text_to_voice_ok:
  assumes "get_prop (body req) (lit ''text'') = Str s" and "s \<noteq> []"
    and "audio_speech_create d (speech_params_of (Str s)) = Inr speech"
    and "arrayBuffer speech = Inr buf"
  shows "status (fst (text_to_voice_handler d req w)) = 200
       \<and> content (fst (text_to_voice_handler d req w)) = Binary buf
       \<and> headers (fst (text_to_voice_handler d req w)) (lit ''Content-Type'') = Some (lit ''audio/mpeg'')
       \<and> headers (fst (text_to_voice_handler d req w)) (lit ''Content-Length'')
           = Some (show_nat (length buf))
       \<and> read_nat (show_nat (length buf)) = length buf"
proof -
  from assms(1) have "\<not> nullish (body req)"
    by (cases "body req") auto
  with assms header_names_differ show ?thesis
    by (simp add: text_to_voice_handler_def text_to_voice_try_def destructure_simp res_defs
        read_nat_show_nat)
qed

theorem text_to_voice_ok_witness:
  "status (fst (text_to_voice_handler mock_deps (json_request [(''text'', Str (lit ''hi''))]) world0)) = 200
   \<and> content (fst (text_to_voice_handler mock_deps (json_request [(''text'', Str (lit ''hi''))]) world0))
       = Binary [0x49, 0x44, 0x33]
   \<and> headers (fst (text_to_voice_handler mock_deps (json_request [(''text'', Str (lit ''hi''))]) world0))
        (lit ''Content-Type'') = Some (lit ''audio/mpeg'')
   \<and> headers (fst (text_to_voice_handler mock_deps (json_request [(''text'', Str (lit ''hi''))]) world0))
        (lit ''Content-Length'') = Some (lit ''3'')"
  using text_to_voice_ok [of "json_request [(''text'', Str (lit ''hi''))]" "lit ''hi''" mock_deps
      "SpeechResponse (Inr [0x49, 0x44, 0x33])" "[0x49, 0x44, 0x33]" world0]
  by (simp add: json_request_def mock_deps_def own_prop_def show_small lit_def)

subsection \<open>Provider calls\<close>

text \<open>
  C7. Every provider call of the translate handler is a chat completion with
  temperature 0.1 and at most 500 tokens; every provider call of the chat handler is
  a chat completion with temperature 0.7 and at most 400 tokens.
\<close>

theorem sampling_parameters:
  "(\<forall>(c, e) \<in> set (invoked Translate d req w).
      \<exists>p. c = ChatCompletion p \<and> temperature p = 1 / 10 \<and> max_tokens p = 500)
   \<and> (\<forall>(c, e) \<in> set (invoked Chat d req w).
      \<exists>p. c = ChatCompletion p \<and> temperature p = 7 / 10 \<and> max_tokens p = 400)"
  using translate_invoked [of d req w] chat_invoked [of d req w]
  by (auto simp: translate_params_def chat_params_of_def)

theorem sampling_parameters_witness:
  "invoked Translate mock_deps
       (json_request [(''text'', Str (lit ''Hello'')), (''targetLanguage'', Str (lit ''Spanish''))]) world0
     = [(ChatCompletion (translate_params (lit ''Spanish'') (lit ''Hello'')), None)]
   \<and> temperature (translate_params (lit ''Spanish'') (lit ''Hello'')) = 1 / 10
   \<and> max_tokens (translate_params (lit ''Spanish'') (lit ''Hello'')) = 500
   \<and> invoked Chat mock_deps
       (json_request [(''message'', Str (lit ''hi'')), (''language'', Str (lit ''Spanish''))]) world0
     = [(ChatCompletion (chat_params_of (lit ''Respond in Spanish.'') (Str (lit ''hi''))), None)]
   \<and> temperature (chat_params_of (lit ''Respond in Spanish.'') (Str (lit ''hi''))) = 7 / 10
   \<and> max_tokens (chat_params_of (lit ''Respond in Spanish.'') (Str (lit ''hi''))) = 400"
  using sampling_parameters [of mock_deps
      "json_request [(''text'', Str (lit ''Hello'')), (''targetLanguage'', Str (lit ''Spanish''))]" world0]
    sampling_parameters [of mock_deps
      "json_request [(''message'', Str (lit ''hi'')), (''language'', Str (lit ''Spanish''))]" world0]
  by (simp add: invoked_def translate_handler_def translate_try_def chat_handler_def chat_try_def
      lang_note_def destructure_simp own_prop_def log_call_def sample_defs first_choice_content_def
      opt_prop_def lit_def translate_params_def chat_params_of_def)

text \<open>
  C8, as stated, fails: a request to POST /translate whose \<^verbatim>\<open>text\<close> is the object
  \<^verbatim>\<open>{"toString": "x"}\<close> passes validation (both fields are truthy), the template
  literal of line 43 throws, and the request is answered 500 without any provider call.
\<close>

theorem exactly_one_call_counterexample:
  "truthy unprintable \<and> truthy (Str (lit ''French''))
   \<and> status (fst (handle Translate mock_deps
        (json_request [(''text'', unprintable), (''targetLanguage'', Str (lit ''French''))]) world0)) = 500
   \<and> invoked Translate mock_deps
        (json_request [(''text'', unprintable), (''targetLanguage'', Str (lit ''French''))]) world0 = []"
  by (simp add: invoked_def translate_handler_def translate_try_def destructure_simp own_prop_def
      sample_defs unprintable_def res_defs lit_def)

text \<open>
  C8, amended. Every request to one of the four POST routes invokes at most one provider
  operation: none when it is answered 400, exactly one when it is answered 200. When
  validation passes, the request is not answered 400, and it invokes exactly one
  operation if nothing is raised between the validation and the provider call; if
  something is (an interpolated field without a string conversion, a temp file that
  cannot be written), it is answered 500 and invokes none. A request that does not
  pass validation is answered 400.
\<close>

theorem provider_calls_per_request:
  "length (invoked r d req w) \<le> 1
   \<and> (status (fst (handle r d req w)) = 400 \<longrightarrow> invoked r d req w = [])
   \<and> (status (fst (handle r d req w)) = 200 \<longrightarrow> length (invoked r d req w) = 1)
   \<and> (validation_passes r req \<longrightarrow> status (fst (handle r d req w)) \<noteq> 400)
   \<and> (validation_passes r req \<and> builds_call r d req w \<longrightarrow> length (invoked r d req w) = 1)
   \<and> (validation_passes r req \<and> \<not> builds_call r d req w \<longrightarrow>
        status (fst (handle r d req w)) = 500 \<and> invoked r d req w = [])
   \<and> (\<not> validation_passes r req \<and> (r = VoiceToText \<or> \<not> nullish (body req)) \<longrightarrow>
        status (fst (handle r d req w)) = 400)"
proof -
  have passes: "validation_passes r req \<longrightarrow> status (fst (handle r d req w)) \<noteq> 400"
    using translate_passes(1) [of req d w] chat_passes(1) [of req d w]
      voice_passes(1) [of req d w] tts_passes(1) [of req d w]
    by (cases r) auto
  have one: "validation_passes r req \<and> builds_call r d req w
               \<longrightarrow> length (invoked r d req w) = 1"
    using translate_passes(2) [of req d w] chat_passes(2) [of req d w]
      voice_passes(2) [of req d w] tts_passes(2) [of req d w]
    by (cases r) auto
  have none: "validation_passes r req \<and> \<not> builds_call r d req w
                \<longrightarrow> status (fst (handle r d req w)) = 500 \<and> invoked r d req w = []"
    using translate_passes(3) [of req d w] chat_passes(3) [of req d w]
      voice_passes(3) [of req d w]
    by (cases r) auto
  have fails: "\<not> validation_passes r req \<and> (r = VoiceToText \<or> \<not> nullish (body req))
                 \<longrightarrow> status (fst (handle r d req w)) = 400"
    using validation_fails_400 [of r req d w] by blast
  from passes one none fails show ?thesis
    using invoked_at_most_one [of r d req w] invoked_none_on_400 [of r d req w]
      invoked_one_on_200 [of r d req w]
    by blast
qed

theorem provider_calls_per_request_witness:
  "validation_passes Translate
       (json_request [(''text'', Str (lit ''Hello'')), (''targetLanguage'', Str (lit ''Spanish''))])
   \<and> builds_call Translate mock_deps
       (json_request [(''text'', Str (lit ''Hello'')), (''targetLanguage'', Str (lit ''Spanish''))]) world0
   \<and> status (fst (handle Translate mock_deps
        (json_request [(''text'', Str (lit ''Hello'')), (''targetLanguage'', Str (lit ''Spanish''))]) world0)) = 200
   \<and> length (invoked Translate mock_deps
        (json_request [(''text'', Str (lit ''Hello'')), (''targetLanguage'', Str (lit ''Spanish''))]) world0) = 1
   \<and> validation_passes Translate
       (json_request [(''text'', Num 0x4014000000000000), (''targetLanguage'', Str (lit ''fr''))])
   \<and> builds_call Translate (throwing_deps timeout_error)
       (json_request [(''text'', Num 0x4014000000000000), (''targetLanguage'', Str (lit ''fr''))]) world0
   \<and> length (invoked Translate (throwing_deps timeout_error)
        (json_request [(''text'', Num 0x4014000000000000), (''targetLanguage'', Str (lit ''fr''))]) world0) = 1
   \<and> validation_passes Chat
       (json_request [(''message'', Str (lit ''hi'')), (''language'', unprintable)])
   \<and> \<not> builds_call Chat mock_deps
       (json_request [(''message'', Str (lit ''hi'')), (''language'', unprintable)]) world0
   \<and> status (fst (handle Chat mock_deps
        (json_request [(''message'', Str (lit ''hi'')), (''language'', unprintable)]) world0)) = 500
   \<and> invoked Chat mock_deps
        (json_request [(''message'', Str (lit ''hi'')), (''language'', unprintable)]) world0 = []
   \<and> \<not> validation_passes Chat (json_request [])
   \<and> status (fst (handle Chat mock_deps (json_request []) world0)) = 400
   \<and> invoked Chat mock_deps (json_request []) world0 = []"
  using provider_calls_per_request [of Translate mock_deps
      "json_request [(''text'', Str (lit ''Hello'')), (''targetLanguage'', Str (lit ''Spanish''))]" world0]
    provider_calls_per_request [of Translate "throwing_deps timeout_error"
      "json_request [(''text'', Num 0x4014000000000000), (''targetLanguage'', Str (lit ''fr''))]" world0]
    provider_calls_per_request [of Chat mock_deps
      "json_request [(''message'', Str (lit ''hi'')), (''language'', unprintable)]" world0]
    provider_calls_per_request [of Chat mock_deps "json_request []" world0]
  by (simp add: translate_handler_def translate_try_def chat_handler_def chat_try_def
      lang_note_def destructure_simp own_prop_def sample_defs unprintable_def
      first_choice_content_def opt_prop_def res_defs js_or_def zero_or_nan_def lit_def)

subsection \<open>Upstream errors\<close>

text \<open>
  C3. On each of the four POST routes, when the handler invoked the provider (which it
  does only after validation passed) and the operation threw the error \<open>e\<close>, the
  response is 500 with the JSON body \<^verbatim>\<open>{error, details}\<close>: \<^verbatim>\<open>error\<close> names the
  operation that failed and \<^verbatim>\<open>details\<close> contains the message of \<open>e\<close> (it is that
  message, unless the message is empty). No error escapes a handler: whatever the
  \<^verbatim>\<open>try\<close> block throws is caught, and every request is answered 200, 400 or 500
  (\<open>handle_answers\<close>).
\<close>

theorem upstream_error_500:
  assumes "invoked r d req w = [(c, Some e)]"
  shows "status (fst (handle r d req w)) = 500
       \<and> content (fst (handle r d req w))
           = Json (Obj [(lit ''error'',
                         Str (lit (case r of Translate \<Rightarrow> ''Translate failed''
                                    | Chat \<Rightarrow> ''Chat failed''
                                    | VoiceToText \<Rightarrow> ''Voice-to-text failed''
                                    | TextToVoice \<Rightarrow> ''TTS failed''))),
                        (lit ''details'', Str (err_details e))])
       \<and> sublist (err_message e) (err_details e)
       \<and> (err_message e \<noteq> [] \<longrightarrow> err_details e = err_message e)"
proof -
  have "sublist (err_message e) (err_details e)"
    by (simp add: err_details_def)
  moreover have "err_message e \<noteq> [] \<longrightarrow> err_details e = err_message e"
    by (simp add: err_details_def)
  moreover have "status (fst (handle r d req w)) = 500
       \<and> content (fst (handle r d req w))
           = Json (Obj [(lit ''error'',
                         Str (lit (case r of Translate \<Rightarrow> ''Translate failed''
                                    | Chat \<Rightarrow> ''Chat failed''
                                    | VoiceToText \<Rightarrow> ''Voice-to-text failed''
                                    | TextToVoice \<Rightarrow> ''TTS failed''))),
                        (lit ''details'', Str (err_details e))])"
  proof (cases r)
    case Translate
    with assms show ?thesis
      by (auto simp: invoked_def translate_handler_def translate_try_def log_call_def res_defs
          split: sum.splits if_splits)
  next
    case Chat
    with assms show ?thesis
      by (auto simp: invoked_def chat_handler_def chat_try_def log_call_def res_defs
          split: sum.splits if_splits)
  next
    case VoiceToText
    with assms show ?thesis
      by (auto simp: invoked_def voice_to_text_handler_def voice_to_text_begin_def
          voice_to_text_resume_def writeFileSync_def unlinkSync_quiet_def log_call_def thrown_def
          res_defs split: sum.splits option.splits)
  next
    case TextToVoice
    with assms show ?thesis
      by (auto simp: invoked_def text_to_voice_handler_def text_to_voice_try_def log_call_def
          res_defs split: sum.splits if_splits)
  qed
  ultimately show ?thesis by blast
qed

theorem upstream_error_500_witness:
  "invoked Translate (throwing_deps timeout_error)
       (json_request [(''text'', Str (lit ''Hello'')), (''targetLanguage'', Str (lit ''Spanish''))]) world0
     = [(ChatCompletion (translate_params (lit ''Spanish'') (lit ''Hello'')), Some timeout_error)]
   \<and> status (fst (handle Translate (throwing_deps timeout_error)
       (json_request [(''text'', Str (lit ''Hello'')), (''targetLanguage'', Str (lit ''Spanish''))]) world0)) = 500
   \<and> content (fst (handle Translate (throwing_deps timeout_error)
       (json_request [(''text'', Str (lit ''Hello'')), (''targetLanguage'', Str (lit ''Spanish''))]) world0))
     = Json (Obj [(lit ''error'', Str (lit ''Translate failed'')),
                  (lit ''details'', Str (lit ''Request timed out.''))])
   \<and> invoked Chat (throwing_deps timeout_error) (json_request [(''message'', Str (lit ''hi''))]) world0
     = [(ChatCompletion (chat_params_of [] (Str (lit ''hi''))), Some timeout_error)]
   \<and> content (fst (handle Chat (throwing_deps timeout_error)
       (json_request [(''message'', Str (lit ''hi''))]) world0))
     = Json (Obj [(lit ''error'', Str (lit ''Chat failed'')),
                  (lit ''details'', Str (lit ''Request timed out.''))])
   \<and> invoked VoiceToText (throwing_deps timeout_error) (audio_request [1, 2, 3]) world0
     = [(Transcription \<lparr>tr_file = tmpPath 1700000000000, tr_model = lit ''gpt-4o-mini-transcribe''\<rparr>,
         Some timeout_error)]
   \<and> content (fst (handle VoiceToText (throwing_deps timeout_error) (audio_request [1, 2, 3]) world0))
     = Json (Obj [(lit ''error'', Str (lit ''Voice-to-text failed'')),
                  (lit ''details'', Str (lit ''Request timed out.''))])
   \<and> invoked TextToVoice (throwing_deps timeout_error) (json_request [(''text'', Str (lit ''hi''))]) world0
     = [(Speech (speech_params_of (Str (lit ''hi''))), Some timeout_error)]
   \<and> content (fst (handle TextToVoice (throwing_deps timeout_error)
       (json_request [(''text'', Str (lit ''hi''))]) world0))
     = Json (Obj [(lit ''error'', Str (lit ''TTS failed'')),
                  (lit ''details'', Str (lit ''Request timed out.''))])"
  using upstream_error_500 [of Translate "throwing_deps timeout_error"
      "json_request [(''text'', Str (lit ''Hello'')), (''targetLanguage'', Str (lit ''Spanish''))]" world0
      "ChatCompletion (translate_params (lit ''Spanish'') (lit ''Hello''))" timeout_error]
    upstream_error_500 [of Chat "throwing_deps timeout_error"
      "json_request [(''message'', Str (lit ''hi''))]" world0
      "ChatCompletion (chat_params_of [] (Str (lit ''hi'')))" timeout_error]
    upstream_error_500 [of VoiceToText "throwing_deps timeout_error" "audio_request [1, 2, 3]" world0
      "Transcription \<lparr>tr_file = tmpPath 1700000000000, tr_model = lit ''gpt-4o-mini-transcribe''\<rparr>"
      timeout_error]
    upstream_error_500 [of TextToVoice "throwing_deps timeout_error"
      "json_request [(''text'', Str (lit ''hi''))]" world0
      "Speech (speech_params_of (Str (lit ''hi'')))" timeout_error]
  by (simp add: invoked_def translate_handler_def translate_try_def chat_handler_def chat_try_def
      lang_note_def voice_to_text_handler_def voice_to_text_begin_def voice_to_text_resume_def
      writeFileSync_def thrown_def text_to_voice_handler_def text_to_voice_try_def
      destructure_simp own_prop_def log_call_def sample_defs err_details_def lit_def)

subsection \<open>The temp file of /voice-to-text\<close>

text \<open>
  C1 says that the temp file of a request to POST /voice-to-text is gone once the
  response is sent, whether the transcription succeeds or fails. On success it is
  (\<open>temp_file_removed_on_success\<close>). When the transcription throws, control passes from
  the \<^verbatim>\<open>await\<close> of line 106 to the \<^verbatim>\<open>catch\<close> of line 115, the cleanup of line 112 is
  skipped, and the file is still there after the 500 response: here for an upload of
  three bytes and a provider that times out.
\<close>

theorem temp_file_left_on_failure:
  "status (fst (voice_to_text_handler (throwing_deps timeout_error) (audio_request [1, 2, 3]) world0)) = 500
   \<and> invoked VoiceToText (throwing_deps timeout_error) (audio_request [1, 2, 3]) world0
       = [(Transcription \<lparr>tr_file = tmpPath 1700000000000, tr_model = lit ''gpt-4o-mini-transcribe''\<rparr>,
           Some timeout_error)]
   \<and> files (snd (voice_to_text_handler (throwing_deps timeout_error) (audio_request [1, 2, 3]) world0))
        (tmpPath 1700000000000) = Some [1, 2, 3]"
  by (simp add: invoked_def voice_to_text_handler_def voice_to_text_begin_def voice_to_text_resume_def
      writeFileSync_def log_call_def thrown_def sample_defs res_defs)

text \<open>
  C9 says that two distinct concurrent requests to POST /voice-to-text write temp files
  of distinct names, so that none is read, overwritten or deleted by another. The name
  of line 102 depends on the clock alone: names differ when the handlers read
  different milliseconds (\<open>names_by_clock\<close>), and a handler then leaves every other
  path alone (\<open>other_paths_untouched\<close>). Two different requests whose handlers read the
  same millisecond write to the same path: the second overwrites the upload of the
  first before it is transcribed, and the first, once resumed, unlinks the file of
  the second.
\<close>

theorem temp_names_collide:
  "audio_request [1] \<noteq> audio_request [2]
   \<and> tmp_name_of (audio_request [1]) world0 = Some (tmpPath 1700000000000)
   \<and> tmp_name_of (audio_request [2]) (snd (voice_to_text_begin (audio_request [1]) world0))
       = Some (tmpPath 1700000000000)
   \<and> files (snd (voice_to_text_begin (audio_request [1]) world0)) (tmpPath 1700000000000) = Some [1]
   \<and> files (snd (voice_to_text_begin (audio_request [2])
               (snd (voice_to_text_begin (audio_request [1]) world0)))) (tmpPath 1700000000000)
       = Some [2]
   \<and> files (snd (voice_to_text_resume (tmpPath 1700000000000) (Inr (Obj []))
               (snd (voice_to_text_begin (audio_request [2])
                  (snd (voice_to_text_begin (audio_request [1]) world0))))))
         (tmpPath 1700000000000)
       = None"
  by (simp add: tmp_name_of_def voice_to_text_begin_def voice_to_text_resume_def writeFileSync_def
      unlinkSync_quiet_def sample_defs)

end
